theory Spec2Isabelle
  imports Complex_Main "HOL-Library.Log_Nat"
begin

section \<open>Numbers and errors\<close>

text \<open>
  The analytics code is Python; the dashboard is TypeScript.  Python's built-in \<open>/\<close>
  raises \<open>ZeroDivisionError\<close> on a zero divisor; every exception the modelled code can
  raise is a value of \<open>py_error\<close>, returned as \<open>Inl\<close>.

  The volume-anomaly detector and the dashboard statistics are modelled in IEEE 754
  double precision (see the next section), since what they return is decided by rounded
  quotients and sums.  The other functions are modelled over the reals.
\<close>

datatype py_error = ZeroDivisionError | IndexError | ValueError | KeyError

definition py_div :: "real \<Rightarrow> real \<Rightarrow> py_error + real" where
  "py_div a b = (if b = 0 then Inl ZeroDivisionError else Inr (a / b))"

section \<open>Double precision\<close>

text \<open>
  A Python \<open>float\<close> and a JavaScript \<open>number\<close> are IEEE 754 binary64 values: a finite
  value, one of the two infinities, or NaN.  The sign of zero is not modelled.
\<close>

datatype double = Fin real | PInf | NInf | NaN

text \<open>
  \<open>binary_exponent x\<close> is the \<open>e\<close> with \<open>2^e \<le> |x| < 2^(e+1)\<close>, computed from the bit
  length of the integer part of \<open>|x|\<close> or of \<open>1 / |x|\<close>.
\<close>

definition binary_exponent :: "real \<Rightarrow> int" where
  "binary_exponent x =
     (if 1 \<le> \<bar>x\<bar> then bitlen \<lfloor>\<bar>x\<bar>\<rfloor> - 1 else - bitlen (\<lceil>1 / \<bar>x\<bar>\<rceil> - 1))"

definition round_half_even :: "real \<Rightarrow> int" where
  "round_half_even r =
     (let f = \<lfloor>r\<rfloor>; d = r - of_int f
      in if d < 1 / 2 then f else if 1 / 2 < d then f + 1
         else if even f then f else f + 1)"

text \<open>
  \<open>fl x\<close> rounds a real result to the nearest double, ties to even: the significand has
  53 bits, the least exponent is \<open>-1022\<close> (below it the spacing stays \<open>2^-1074\<close>), and a
  result that rounds to \<open>2^1024\<close> or beyond is an infinity.
\<close>

definition fl :: "real \<Rightarrow> double" where
  "fl x =
     (if x = 0 then Fin 0
      else
        let u = 2 powi (max (binary_exponent x) (- 1022) - 52);
            y = of_int (round_half_even (x / u)) * u
        in if 2 ^ 1024 \<le> \<bar>y\<bar> then (if 0 < x then PInf else NInf) else Fin y)"



fun d_neg :: "double \<Rightarrow> double" where
  "d_neg (Fin a) = Fin (- a)"
| "d_neg PInf = NInf"
| "d_neg NInf = PInf"
| "d_neg NaN = NaN"

fun d_add :: "double \<Rightarrow> double \<Rightarrow> double" where
  "d_add (Fin a) (Fin b) = fl (a + b)"
| "d_add NaN b = NaN"
| "d_add a NaN = NaN"
| "d_add PInf NInf = NaN"
| "d_add NInf PInf = NaN"
| "d_add PInf b = PInf"
| "d_add a PInf = PInf"
| "d_add NInf b = NInf"
| "d_add a NInf = NInf"

definition d_sub :: "double \<Rightarrow> double \<Rightarrow> double" where
  "d_sub a b = d_add a (d_neg b)"

text \<open>
  The IEEE quotient, which is JavaScript's \<open>/\<close>: a zero divisor gives an infinity, or
  NaN for \<open>0 / 0\<close>.
\<close>

fun d_quot :: "double \<Rightarrow> double \<Rightarrow> double" where
  "d_quot (Fin a) (Fin b) =
     (if b = 0 then (if a = 0 then NaN else if 0 < a then PInf else NInf)
      else fl (a / b))"
| "d_quot NaN b = NaN"
| "d_quot a NaN = NaN"
| "d_quot (Fin a) b = Fin 0"
| "d_quot PInf (Fin b) = (if 0 \<le> b then PInf else NInf)"
| "d_quot NInf (Fin b) = (if 0 \<le> b then NInf else PInf)"
| "d_quot a b = NaN"

text \<open>\<open>a < b\<close> on doubles: false whenever an operand is NaN.\<close>

fun d_less :: "double \<Rightarrow> double \<Rightarrow> bool" where
  "d_less (Fin a) (Fin b) = (a < b)"
| "d_less (Fin a) PInf = True"
| "d_less NInf (Fin b) = True"
| "d_less NInf PInf = True"
| "d_less a b = False"

text \<open>
  Python's \<open>/\<close> on floats: \<open>ZeroDivisionError\<close> on a zero divisor, the IEEE quotient
  otherwise (an overflow is an infinity, not an exception).
\<close>

definition py_truediv :: "double \<Rightarrow> double \<Rightarrow> py_error + double" where
  "py_truediv a b = (if b = Fin 0 then Inl ZeroDivisionError else Inr (d_quot a b))"

section \<open>Containers\<close>

text \<open>\<open>xs[i]\<close> on a Python list: a negative index counts from the end.\<close>

definition py_index :: "'a list \<Rightarrow> int \<Rightarrow> py_error + 'a" where
  "py_index xs i =
     (if 0 \<le> i
      then (if nat i < length xs then Inr (xs ! nat i) else Inl IndexError)
      else (if nat (- i) \<le> length xs then Inr (xs ! (length xs - nat (- i)))
            else Inl IndexError))"

text \<open>\<open>d[k]\<close> on a Python dict.\<close>

definition py_getitem :: "('k \<rightharpoonup> 'v) \<Rightarrow> 'k \<Rightarrow> py_error + 'v" where
  "py_getitem d k = case_option (Inl KeyError) Inr (d k)"

text \<open>
  \<open>d[k] = v\<close> on a dict built in a loop: the dict keeps its keys in the order of their
  first insertion, and a later store under the same key replaces the value.
\<close>

fun dict_set :: "'k \<Rightarrow> 'v \<Rightarrow> ('k \<times> 'v) list \<Rightarrow> ('k \<times> 'v) list" where
  "dict_set k v [] = [(k, v)]"
| "dict_set k v ((k', v') # d) = (if k' = k then (k, v) # d else (k', v') # dict_set k v d)"

definition dict_values :: "('k \<times> 'v) list \<Rightarrow> 'v list" where
  "dict_values d = map snd d"

text \<open>\<open>max(xs)\<close>: \<open>ValueError\<close> on an empty sequence.\<close>

fun py_max :: "real list \<Rightarrow> py_error + real" where
  "py_max [] = Inl ValueError"
| "py_max (x # xs) = Inr (foldl max x xs)"

text \<open>
  The opportunity and alert records of the source are dict literals.  A value is a string,
  a number (\<open>Flt\<close> where the function is modelled in double precision), an f-string
  rendering of a number inside a fixed text (\<open>Formatted\<close> keeps the number), or a fixed
  text literal that is not reproduced here (\<open>Fixed_text\<close>).
\<close>

datatype pyval = Str string | Numb real | Flt double | Formatted real | Fixed_text

type_synonym pydict = "(string \<times> pyval) list"

text \<open>
  \<open>has_entry k v d\<close>: the dict \<open>d\<close> maps the key \<open>k\<close> to \<open>v\<close>.  \<open>emits t res\<close>: the call
  returned a list that holds a dict of type \<open>t\<close> (a call that raised emits nothing);
  \<open>emits_with\<close> asks for one more entry of that dict.
\<close>

definition has_entry :: "string \<Rightarrow> pyval \<Rightarrow> pydict \<Rightarrow> bool" where
  "has_entry k v d = (map_of d k = Some v)"

definition emits :: "string \<Rightarrow> py_error + pydict list \<Rightarrow> bool" where
  "emits t res =
     (case res of Inl e \<Rightarrow> False | Inr ds \<Rightarrow> list_ex (has_entry ''type'' (Str t)) ds)"

definition emits_with :: "string \<Rightarrow> string \<Rightarrow> pyval \<Rightarrow> py_error + pydict list \<Rightarrow> bool" where
  "emits_with t k v res =
     (case res of Inl e \<Rightarrow> False
      | Inr ds \<Rightarrow> list_ex (\<lambda>d. has_entry ''type'' (Str t) d \<and> has_entry k v d) ds)"

section \<open>Opportunity detectors\<close>

text \<open>One session of \<open>stock_data\<close>; the detectors read the keys \<open>close\<close> and \<open>volume\<close>.\<close>

record bar =
  close :: real
  volume :: real

text \<open>
  The result of \<open>calculate_bollinger_bands\<close>.  The source reads \<open>lower_band\<close> only.
\<close>

record bollinger_bands =
  upper_band :: real
  lower_band :: real

text \<open>
  The helpers \<open>calculate_rsi\<close>, \<open>calculate_bollinger_bands\<close>, \<open>calculate_potential_upside\<close>,
  \<open>calculate_avg_volume\<close>, \<open>calculate_iv_skew\<close>, \<open>calculate_historical_volatility\<close> and
  \<open>calculate_average_iv\<close> are called but not defined in the source; each detector takes
  them as arguments.
\<close>

definition detect_oversold_overbought_opportunities ::
  "(bar list \<Rightarrow> nat \<Rightarrow> real) \<Rightarrow> (bar list \<Rightarrow> nat \<Rightarrow> real \<Rightarrow> bollinger_bands) \<Rightarrow>
   (bar list \<Rightarrow> real) \<Rightarrow> bar list \<Rightarrow> py_error + pydict list" where
  "detect_oversold_overbought_opportunities calculate_rsi calculate_bollinger_bands
     calculate_potential_upside stock_data =
     (let rsi = calculate_rsi stock_data 14;
          bands = calculate_bollinger_bands stock_data 20 2
      in case py_index stock_data (- 1) of
           Inl e \<Rightarrow> Inl e
         | Inr last_bar \<Rightarrow>
             let current_price = close last_bar
             in Inr (if rsi < 30 \<and> current_price \<le> lower_band bands
                     then [[(''type'', Str ''oversold_bounce''),
                            (''rsi'', Numb rsi),
                            (''price_position'', Str ''below_lower_band''),
                            (''potential_upside'',
                               Numb (calculate_potential_upside stock_data))]]
                     else []))"

text \<open>
  The volume-anomaly detector in double precision.  The closes of \<open>stock_data\<close> and the
  result of \<open>calculate_avg_volume\<close> are finite floats.  A volume is a float or an integer
  count; dividing it by the float average first converts it to a float (\<open>fl\<close>, which
  leaves a float as it is).  The literal \<open>0.05\<close> is the double nearest to it; the
  thresholds \<open>3\<close> and \<open>5\<close> are integers.
\<close>

definition detect_volume_anomalies ::
  "(bar list \<Rightarrow> nat \<Rightarrow> real) \<Rightarrow> bar list \<Rightarrow> py_error + pydict list" where
  "detect_volume_anomalies calculate_avg_volume stock_data =
     (let avg_volume_5d = calculate_avg_volume stock_data 5;
          avg_volume_20d = calculate_avg_volume stock_data 20
      in case py_index stock_data (- 1) of
           Inl e \<Rightarrow> Inl e
         | Inr last_bar \<Rightarrow>
             (let current_volume = volume last_bar
              in (case py_truediv (fl current_volume) (Fin avg_volume_20d) of
                  Inl e \<Rightarrow> Inl e
                | Inr volume_ratio \<Rightarrow>
                    (case py_index stock_data (- 2) of
                       Inl e \<Rightarrow> Inl e
                     | Inr prev_bar \<Rightarrow>
                         (case py_truediv
                                 (d_sub (Fin (close last_bar)) (Fin (close prev_bar)))
                                 (Fin (close prev_bar)) of
                            Inl e \<Rightarrow> Inl e
                          | Inr price_change \<Rightarrow>
                              Inr (if d_less (Fin 3) volume_ratio \<and>
                                      d_less (fl 0.05) price_change
                                   then [[(''type'', Str ''volume_surge_up''),
                                          (''volume_ratio'', Flt volume_ratio),
                                          (''price_change'', Flt price_change),
                                          (''strength'',
                                             Str (if d_less (Fin 5) volume_ratio
                                                  then ''strong'' else ''moderate''))]]
                                   else []))))))"

text \<open>
  The quantities of the volume-anomaly rule as the specification words them, in the
  arithmetic of the program: the ratio of the current volume to the 20-day average
  volume, and the same-day return on the previous close.
\<close>

definition volume_ratio :: "(bar list \<Rightarrow> nat \<Rightarrow> real) \<Rightarrow> bar list \<Rightarrow> double" where
  "volume_ratio calculate_avg_volume stock_data =
     d_quot (fl (volume (last stock_data))) (Fin (calculate_avg_volume stock_data 20))"

definition previous_close :: "bar list \<Rightarrow> real" where
  "previous_close stock_data = close (stock_data ! (length stock_data - 2))"

definition same_day_return :: "bar list \<Rightarrow> double" where
  "same_day_return stock_data =
     d_quot (d_sub (Fin (close (last stock_data))) (Fin (previous_close stock_data)))
       (Fin (previous_close stock_data))"

text \<open>
  \<open>underlying_stock\<close> is a free name in the source function (it is not a parameter); the
  model takes it as an argument.
\<close>

definition detect_option_volatility_opportunities ::
  "('c \<Rightarrow> real) \<Rightarrow> ('u \<Rightarrow> nat \<Rightarrow> real) \<Rightarrow> ('c \<Rightarrow> real) \<Rightarrow> 'u \<Rightarrow> 'c \<Rightarrow>
   py_error + pydict list" where
  "detect_option_volatility_opportunities calculate_iv_skew calculate_historical_volatility
     calculate_average_iv underlying_stock option_chain =
     (let iv_skew = calculate_iv_skew option_chain;
          historical_vol = calculate_historical_volatility underlying_stock 30;
          avg_iv = calculate_average_iv option_chain
      in if avg_iv < historical_vol * 0.8
         then (case py_div avg_iv historical_vol of
                 Inl e \<Rightarrow> Inl e
               | Inr iv_ratio \<Rightarrow>
                   Inr [[(''type'', Str ''iv_undervalued''),
                         (''strategy'',
                            Str (if iv_skew < 0 then ''long_straddle'' else ''long_calendar'')),
                         (''iv_ratio'', Numb iv_ratio)]])
         else Inr [])"

section \<open>Individual stock risk: value at risk\<close>

text \<open>
  \<open>np.percentile(a, q)\<close> with numpy's default linear interpolation: on the sorted data
  of length \<open>n\<close> the virtual index is \<open>q / 100 * (n - 1)\<close>, and the result is interpolated
  between the two neighbouring order statistics.  numpy rejects \<open>q\<close> outside \<open>[0, 100]\<close>
  with a \<open>ValueError\<close> and has no value for empty data (current releases raise an
  \<open>IndexError\<close>).
\<close>

definition interpolate :: "real list \<Rightarrow> real \<Rightarrow> real" where
  "interpolate s pos =
     (let lo = nat \<lfloor>pos\<rfloor>;
          hi = min (lo + 1) (length s - 1)
      in s ! lo + (pos - real lo) * (s ! hi - s ! lo))"

definition np_percentile :: "real list \<Rightarrow> real \<Rightarrow> py_error + real" where
  "np_percentile a q =
     (if q < 0 \<or> 100 < q then Inl ValueError
      else if a = [] then Inl IndexError
      else Inr (interpolate (sort a) (q / 100 * (real (length a) - 1))))"

text \<open>
  The dict returned by \<open>calculate_var\<close>; its third entry, \<open>interpretation\<close>, is a display
  string formatted from \<open>var_value\<close> and is not part of the record.
\<close>

record var_result =
  var_95 :: real
  var_99 :: real

text \<open>
  \<open>calculate_var\<close> starts from \<open>returns = calculate_daily_returns(price_data)\<close>, a helper the
  source does not define; the model takes the return series itself.
\<close>

definition calculate_var :: "real list \<Rightarrow> real \<Rightarrow> real \<Rightarrow> py_error + var_result" where
  "calculate_var returns confidence_level holding_period =
     (let var_percentile = (1 - confidence_level) * 100
      in case np_percentile returns var_percentile of
           Inl e \<Rightarrow> Inl e
         | Inr p \<Rightarrow>
             (let var_value = p * holding_period
              in (case np_percentile returns 1 of
                    Inl e \<Rightarrow> Inl e
                  | Inr p1 \<Rightarrow> Inr \<lparr>var_95 = var_value, var_99 = p1 * holding_period\<rparr>)))"

section \<open>Portfolio risk: concentration\<close>

record position =
  symbol :: string
  market_value :: real

record concentration_result =
  concentration_risk :: string
  herfindahl_index :: real
  top_position_weight :: real
  diversification_score :: real

definition portfolio_total :: "position list \<Rightarrow> real" where
  "portfolio_total portfolio_positions = sum_list (map market_value portfolio_positions)"

text \<open>The loop that fills \<open>stock_concentration\<close>, one store per position.\<close>

fun fill_concentration ::
  "real \<Rightarrow> position list \<Rightarrow> (string \<times> real) list \<Rightarrow> py_error + (string \<times> real) list" where
  "fill_concentration total_value [] stock_concentration = Inr stock_concentration"
| "fill_concentration total_value (pos # rest) stock_concentration =
     (case py_div (market_value pos) total_value of
        Inl e \<Rightarrow> Inl e
      | Inr weight \<Rightarrow>
          fill_concentration total_value rest
            (dict_set (symbol pos) weight stock_concentration))"

definition calculate_concentration_risk ::
  "position list \<Rightarrow> py_error + concentration_result" where
  "calculate_concentration_risk portfolio_positions =
     (let total_value = portfolio_total portfolio_positions
      in case fill_concentration total_value portfolio_positions [] of
           Inl e \<Rightarrow> Inl e
         | Inr stock_concentration \<Rightarrow>
             (let hhi = sum_list (map (\<lambda>weight. weight ^ 2) (dict_values stock_concentration))
              in (case py_max (dict_values stock_concentration) of
                  Inl e \<Rightarrow> Inl e
                | Inr top_weight \<Rightarrow>
                    Inr \<lparr>concentration_risk =
                           (if hhi > 0.25 then ''high''
                            else if hhi > 0.15 then ''medium'' else ''low''),
                         herfindahl_index = hhi,
                         top_position_weight = top_weight,
                         diversification_score = 1 - hhi\<rparr>)))"

text \<open>
  The Herfindahl index as the specification words it: every position has the weight
  \<open>market value / total portfolio value\<close>, and the index is the sum of the squared weights.
\<close>

definition position_weight :: "position list \<Rightarrow> position \<Rightarrow> real" where
  "position_weight portfolio_positions pos =
     market_value pos / portfolio_total portfolio_positions"

definition herfindahl_spec :: "position list \<Rightarrow> real" where
  "herfindahl_spec portfolio_positions =
     sum_list (map (\<lambda>pos. (position_weight portfolio_positions pos) ^ 2) portfolio_positions)"

section \<open>Risk alerts\<close>

record alert_rule =
  threshold :: real
  timeframe :: "string option"
  baseline_window :: "nat option"
  priority :: string

definition load_default_rules :: "string \<rightharpoonup> alert_rule" where
  "load_default_rules =
     [''price_drop_alert'' \<mapsto>
        \<lparr>threshold = - 0.15, timeframe = Some ''daily'', baseline_window = None,
         priority = ''high''\<rparr>,
      ''volatility_spike'' \<mapsto>
        \<lparr>threshold = 3.0, timeframe = None, baseline_window = Some 20,
         priority = ''medium''\<rparr>,
      ''volume_anomaly'' \<mapsto>
        \<lparr>threshold = 5.0, timeframe = None, baseline_window = None,
         priority = ''medium''\<rparr>,
      ''correlation_increase'' \<mapsto>
        \<lparr>threshold = 0.8, timeframe = None, baseline_window = None,
         priority = ''low''\<rparr>]"

text \<open>
  \<open>check_risk_alerts\<close> reads the snapshot through \<open>calculate_price_change\<close>,
  \<open>calculate_current_volatility\<close> and \<open>calculate_average_volatility\<close>, methods the source
  does not define; they are arguments.  \<open>portfolio_data\<close> is not used by the body.  The
  volatility message formats \<open>current_vol / avg_vol\<close>, a division that is evaluated
  when the alert is built.
\<close>

definition check_risk_alerts ::
  "(string \<rightharpoonup> alert_rule) \<Rightarrow> ('a \<Rightarrow> real) \<Rightarrow> ('a \<Rightarrow> real) \<Rightarrow> ('a \<Rightarrow> nat \<Rightarrow> real) \<Rightarrow>
   'a \<Rightarrow> 'p \<Rightarrow> py_error + pydict list" where
  "check_risk_alerts alert_rules calculate_price_change calculate_current_volatility
     calculate_average_volatility asset_data portfolio_data =
     (let price_change = calculate_price_change asset_data
      in case py_getitem alert_rules ''price_drop_alert'' of
           Inl e \<Rightarrow> Inl e
         | Inr drop_rule \<Rightarrow>
             (let alerts =
                   (if price_change \<le> threshold drop_rule
                    then [[(''type'', Str ''price_drop''),
                           (''severity'', Str ''high''),
                           (''message'', Formatted \<bar>price_change\<bar>),
                           (''suggestion'', Fixed_text)]]
                    else []);
                 current_vol = calculate_current_volatility asset_data;
                 avg_vol = calculate_average_volatility asset_data 20
              in (case py_getitem alert_rules ''volatility_spike'' of
                  Inl e \<Rightarrow> Inl e
                | Inr spike_rule \<Rightarrow>
                    if current_vol > avg_vol * threshold spike_rule
                    then (case py_div current_vol avg_vol of
                            Inl e \<Rightarrow> Inl e
                          | Inr ratio \<Rightarrow>
                              Inr (alerts @
                                   [[(''type'', Str ''volatility_spike''),
                                     (''severity'', Str ''medium''),
                                     (''message'', Formatted ratio),
                                     (''suggestion'', Fixed_text)]]))
                    else Inr alerts)))"

section \<open>Frontend: calculatePortfolioStats (App.tsx)\<close>

text \<open>
  The \<open>Asset\<close> interface; its \<open>symbol\<close> and \<open>name\<close> fields carry the prefix \<open>asset_\<close>
  here, apart from the \<open>symbol\<close> of a portfolio position.  The numeric fields are
  JavaScript numbers, that is doubles.
\<close>

record asset =
  asset_symbol :: string
  asset_name :: string
  current_price :: double
  change :: double
  change_percent :: double

record portfolio_stats =
  totalValue :: double
  totalChange :: double
  changePercent :: double

text \<open>\<open>assets.reduce((sum, asset) => sum + f(asset), 0)\<close>\<close>

definition reduce_sum :: "(asset \<Rightarrow> double) \<Rightarrow> asset list \<Rightarrow> double" where
  "reduce_sum f assets = foldl (\<lambda>sum a. d_add sum (f a)) (Fin 0) assets"

definition calculatePortfolioStats :: "asset list \<Rightarrow> portfolio_stats" where
  "calculatePortfolioStats assets =
     (if length assets = 0
      then \<lparr>totalValue = Fin 0, totalChange = Fin 0, changePercent = Fin 0\<rparr>
      else
        let totalValue = reduce_sum current_price assets;
            totalChange = reduce_sum change assets;
            avgChangePercent =
              d_quot (reduce_sum change_percent assets) (Fin (real (length assets)))
        in \<lparr>totalValue = d_quot totalValue (Fin (real (length assets))),
            totalChange = d_quot totalChange (Fin (real (length assets))),
            changePercent = avgChangePercent\<rparr>)"



section \<open>Double precision: properties\<close>

lemma bitlen_eqI:
  assumes "2 ^ k \<le> n" and "n < 2 ^ Suc k"
  shows "bitlen n = int k + 1"
proof (rule antisym)
  show "bitlen n \<le> int k + 1"
    using assms(2) by (simp add: bitlen_le_iff_power nat_add_distrib)
  show "int k + 1 \<le> bitlen n"
    using assms(1) by (simp add: bitlen_ge_iff_power nat_add_distrib)
qed

lemma binary_exponent_eqI:
  assumes lo: "2 powi e \<le> \<bar>x\<bar>" and hi: "\<bar>x\<bar> < 2 powi (e + 1)"
  shows "binary_exponent x = e"
proof (cases "1 \<le> \<bar>x\<bar>")
  case True
  have e0: "0 \<le> e"
  proof (rule ccontr)
    assume "\<not> 0 \<le> e"
    then have "e + 1 \<le> 0" by simp
    then have "(2::real) powi (e + 1) \<le> 2 powi 0"
      by (intro power_int_increasing) simp_all
    with hi True show False by simp
  qed
  define k where "k = nat e"
  have e: "e = int k" using e0 by (simp add: k_def)
  have lo': "(2::real) ^ k \<le> \<bar>x\<bar>" and hi': "\<bar>x\<bar> < 2 ^ Suc k"
    using lo hi by (simp_all add: e power_int_add flip: power_int_of_nat)
  have "(2::int) ^ k \<le> \<lfloor>\<bar>x\<bar>\<rfloor>"
    using lo' by (simp add: le_floor_iff)
  moreover have "\<lfloor>\<bar>x\<bar>\<rfloor> < 2 ^ Suc k"
    using hi' by (simp add: floor_less_iff)
  ultimately have "bitlen \<lfloor>\<bar>x\<bar>\<rfloor> = int k + 1"
    by (rule bitlen_eqI)
  with True show ?thesis
    by (simp add: binary_exponent_def e)
next
  case False
  then have x1: "\<bar>x\<bar> < 1" by simp
  have x0: "0 < \<bar>x\<bar>"
    using lo by (smt (verit) zero_less_power_int)
  have e0: "e < 0"
  proof (rule ccontr)
    assume "\<not> e < 0"
    then have "(2::real) powi 0 \<le> 2 powi e"
      by (intro power_int_increasing) simp_all
    with lo x1 show False by simp
  qed
  define k where "k = nat (- e - 1)"
  have e: "e = - int (Suc k)" using e0 by (simp add: k_def)
  have "e + 1 = - int k"
    by (simp add: e)
  then have "(2::real) powi (e + 1) = 1 / 2 ^ k"
    by (simp add: power_int_minus divide_inverse)
  with hi have hi': "\<bar>x\<bar> < 1 / 2 ^ k"
    by simp
  have "(2::real) powi e = 1 / 2 ^ Suc k"
    unfolding e by (simp add: power_int_minus divide_inverse del: of_nat_Suc power_Suc)
  with lo have lo': "1 / 2 ^ Suc k \<le> \<bar>x\<bar>"
    by simp
  have y_le: "1 / \<bar>x\<bar> \<le> 2 ^ Suc k"
    using lo' x0 by (simp add: field_simps)
  have y_gt: "2 ^ k < 1 / \<bar>x\<bar>"
    using hi' x0 by (simp add: field_simps)
  have "\<lceil>1 / \<bar>x\<bar>\<rceil> \<le> 2 ^ Suc k"
    using y_le by (simp add: ceiling_le_iff)
  then have up: "\<lceil>1 / \<bar>x\<bar>\<rceil> - 1 < 2 ^ Suc k"
    by simp
  have "2 ^ k < \<lceil>1 / \<bar>x\<bar>\<rceil>"
    using y_gt by (simp add: less_ceiling_iff)
  then have down: "2 ^ k \<le> \<lceil>1 / \<bar>x\<bar>\<rceil> - 1"
    by simp
  have "bitlen (\<lceil>1 / \<bar>x\<bar>\<rceil> - 1) = int k + 1"
    using down up by (rule bitlen_eqI)
  with False show ?thesis
    by (simp add: binary_exponent_def e)
qed


lemma round_half_even_near:
  assumes "\<bar>r - of_int m\<bar> < 1 / 2"
  shows "round_half_even r = m"
proof -
  consider "of_int m \<le> r" | "r < of_int m" by linarith
  then show ?thesis
  proof cases
    case 1
    with assms have "\<lfloor>r\<rfloor> = m" by (intro floor_unique) linarith+
    with assms 1 show ?thesis
      by (simp add: round_half_even_def Let_def)
  next
    case 2
    have "of_int (m - 1) \<le> r" and "r < of_int (m - 1) + 1"
      using assms 2 by simp_all
    then have f: "\<lfloor>r\<rfloor> = m - 1" by (rule floor_unique)
    have "1 / 2 < r - of_int (m - 1)"
      using assms 2 by simp
    with f show ?thesis
      by (simp add: round_half_even_def Let_def)
  qed
qed

lemma fl_eqI:
  assumes lo: "2 powi e \<le> \<bar>x\<bar>" and hi: "\<bar>x\<bar> < 2 powi (e + 1)" and normal: "- 1022 \<le> e"
    and near: "\<bar>x / 2 powi (e - 52) - of_int m\<bar> < 1 / 2"
  shows "fl x =
           (if (2::real) ^ 1024 \<le> \<bar>of_int m * 2 powi (e - 52)\<bar>
            then (if 0 < x then PInf else NInf)
            else Fin (of_int m * 2 powi (e - 52)))"
proof -
  have ex: "binary_exponent x = e"
    using lo hi by (rule binary_exponent_eqI)
  have "0 < \<bar>x\<bar>"
    using lo by (smt (verit) zero_less_power_int)
  then have nz: "x \<noteq> 0" by auto
  have r: "round_half_even (x / 2 powi (e - 52)) = m"
    using near by (rule round_half_even_near)
  show ?thesis
    using nz normal by (simp add: fl_def ex Let_def r max_def)
qed


lemma fl_0: "fl 0 = Fin 0"
  by (simp add: fl_def)

lemma fl_1: "fl 1 = Fin 1"
  using fl_eqI [of 0 1 "2 ^ 52"] by (simp add: power_int_minus)


lemma fl_3: "fl 3 = Fin 3"
  using fl_eqI [of 1 3 "3 * 2 ^ 51"] by (simp add: power_int_minus)






lemma fl_2_1023: "fl (2 ^ 1023) = Fin (2 ^ 1023)"
  using fl_eqI [of 1023 "2 ^ 1023" "2 ^ 52"] by (simp add: power_int_minus)

lemma fl_2_1024: "fl (2 ^ 1023 + 2 ^ 1023) = PInf"
  using fl_eqI [of 1024 "2 ^ 1023 + 2 ^ 1023" "2 ^ 52"] by (simp add: power_int_minus)


lemma fl_volume_rounds: "fl (3 * 2 ^ 53 + 1) = Fin (3 * 2 ^ 53)"
  using fl_eqI [of 54 "3 * 2 ^ 53 + 1" "3 * 2 ^ 51"] by (simp add: power_int_minus)



section \<open>Containers: properties\<close>

lemma py_index_last: "xs \<noteq> [] \<Longrightarrow> py_index xs (- 1) = Inr (last xs)"
  by (cases xs) (simp_all add: py_index_def last_conv_nth)

lemma py_index_second_last:
  "2 \<le> length xs \<Longrightarrow> py_index xs (- 2) = Inr (xs ! (length xs - 2))"
  by (simp add: py_index_def)

lemma emits_simps:
  "emits t (Inl e) = False"
  "emits t (Inr []) = False"
  "emits t (Inr [d]) = has_entry ''type'' (Str t) d"
  "emits_with t k v (Inl e) = False"
  "emits_with t k v (Inr []) = False"
  "emits_with t k v (Inr [d]) = (has_entry ''type'' (Str t) d \<and> has_entry k v d)"
  by (simp_all add: emits_def emits_with_def)

section \<open>Value at risk: properties\<close>

lemma interpolate_bounds:
  assumes srt: "sorted s" and ne: "s \<noteq> []" and lo0: "0 \<le> pos"
    and hi0: "pos \<le> real (length s) - 1"
  shows "s ! nat \<lfloor>pos\<rfloor> \<le> interpolate s pos"
    and "interpolate s pos \<le> s ! min (nat \<lfloor>pos\<rfloor> + 1) (length s - 1)"
proof -
  define lo where "lo = nat \<lfloor>pos\<rfloor>"
  define hi where "hi = min (lo + 1) (length s - 1)"
  have lo_real: "real lo = of_int \<lfloor>pos\<rfloor>"
    using lo0 by (simp add: lo_def)
  have frac0: "0 \<le> pos - real lo" and frac1: "pos - real lo \<le> 1"
    using lo_real by linarith+
  have "real lo \<le> real (length s) - 1"
    using lo_real hi0 by linarith
  with ne have lo_lt: "lo \<le> length s - 1"
    by (cases s) simp_all
  have "0 < length s"
    using ne by simp
  then have hi_lt: "hi < length s" and lo_hi: "lo \<le> hi"
    using lo_lt by (auto simp: hi_def min_def)
  have step: "s ! lo \<le> s ! hi"
    using srt lo_hi hi_lt by (rule sorted_nth_mono)
  have eq: "interpolate s pos = s ! lo + (pos - real lo) * (s ! hi - s ! lo)"
    by (simp add: interpolate_def Let_def lo_def hi_def)
  have "0 \<le> (pos - real lo) * (s ! hi - s ! lo)"
    using frac0 step by simp
  then show "s ! nat \<lfloor>pos\<rfloor> \<le> interpolate s pos"
    using eq by (simp add: lo_def)
  have "(pos - real lo) * (s ! hi - s ! lo) \<le> 1 * (s ! hi - s ! lo)"
    using frac1 step by (intro mult_right_mono) simp_all
  then show "interpolate s pos \<le> s ! min (nat \<lfloor>pos\<rfloor> + 1) (length s - 1)"
    using eq by (simp add: lo_def hi_def)
qed

lemma interpolate_mono:
  assumes srt: "sorted s" and ne: "s \<noteq> []" and p0: "0 \<le> p"
    and pq: "p \<le> q" and q1: "q \<le> real (length s) - 1"
  shows "interpolate s p \<le> interpolate s q"
proof (cases "\<lfloor>p\<rfloor> = \<lfloor>q\<rfloor>")
  case True
  define lo where "lo = nat \<lfloor>q\<rfloor>"
  define hi where "hi = min (lo + 1) (length s - 1)"
  have "real lo \<le> real (length s) - 1"
    using p0 pq q1 by (simp add: lo_def) linarith
  with ne have "lo \<le> length s - 1"
    by (cases s) simp_all
  moreover have "0 < length s"
    using ne by simp
  ultimately have "lo \<le> hi" and "hi < length s"
    by (auto simp: hi_def min_def)
  with srt have "s ! lo \<le> s ! hi"
    by (simp add: sorted_nth_mono)
  then have "(p - real lo) * (s ! hi - s ! lo) \<le> (q - real lo) * (s ! hi - s ! lo)"
    using pq by (intro mult_right_mono) simp_all
  then show ?thesis
    using True by (simp add: interpolate_def Let_def lo_def hi_def)
next
  case False
  with pq have less: "\<lfloor>p\<rfloor> < \<lfloor>q\<rfloor>"
    using floor_mono [of p q] by linarith
  have q0: "0 \<le> q" and p1: "p \<le> real (length s) - 1"
    using p0 pq q1 by linarith+
  have "0 \<le> \<lfloor>p\<rfloor>"
    using p0 by simp
  with less have idx: "nat \<lfloor>p\<rfloor> + 1 \<le> nat \<lfloor>q\<rfloor>"
    by linarith
  have "real (nat \<lfloor>q\<rfloor>) \<le> real (length s) - 1"
    using q0 q1 by simp linarith
  with ne have q_lt: "nat \<lfloor>q\<rfloor> < length s"
    by (cases s) simp_all
  have "min (nat \<lfloor>p\<rfloor> + 1) (length s - 1) \<le> nat \<lfloor>q\<rfloor>"
    using idx by simp
  with srt q_lt have mid: "s ! min (nat \<lfloor>p\<rfloor> + 1) (length s - 1) \<le> s ! nat \<lfloor>q\<rfloor>"
    by (simp add: sorted_nth_mono)
  have "interpolate s p \<le> s ! min (nat \<lfloor>p\<rfloor> + 1) (length s - 1)"
    using srt ne p0 p1 by (rule interpolate_bounds)
  also note mid
  also have "s ! nat \<lfloor>q\<rfloor> \<le> interpolate s q"
    using srt ne q0 q1 by (rule interpolate_bounds)
  finally show ?thesis .
qed

lemma np_percentile_defined:
  "a \<noteq> [] \<Longrightarrow> 0 \<le> q \<Longrightarrow> q \<le> 100 \<Longrightarrow>
   np_percentile a q = Inr (interpolate (sort a) (q / 100 * (real (length a) - 1)))"
  by (simp add: np_percentile_def)

lemma np_percentile_mono:
  assumes ne: "a \<noteq> []" and q0: "0 \<le> q" and qr: "q \<le> r" and r1: "r \<le> 100"
    and pq: "np_percentile a q = Inr x" and pr: "np_percentile a r = Inr y"
  shows "x \<le> y"
proof -
  have n1: "0 \<le> real (length a) - 1"
    using ne by (cases a) simp_all
  have x: "x = interpolate (sort a) (q / 100 * (real (length (sort a)) - 1))"
    using np_percentile_defined [of a q] ne q0 qr r1 pq by simp
  have y: "y = interpolate (sort a) (r / 100 * (real (length (sort a)) - 1))"
    using np_percentile_defined [of a r] ne q0 qr r1 pr by simp
  have "interpolate (sort a) (q / 100 * (real (length (sort a)) - 1))
          \<le> interpolate (sort a) (r / 100 * (real (length (sort a)) - 1))"
  proof (rule interpolate_mono)
    show "sorted (sort a)" by simp
    show "sort a \<noteq> []" using ne by (metis length_sort length_0_conv)
    show "0 \<le> q / 100 * (real (length (sort a)) - 1)"
      using q0 n1 by simp
    show "q / 100 * (real (length (sort a)) - 1) \<le> r / 100 * (real (length (sort a)) - 1)"
      using qr n1 by (intro mult_right_mono) simp_all
    have "r / 100 * (real (length (sort a)) - 1) \<le> 1 * (real (length (sort a)) - 1)"
      using r1 n1 by (intro mult_right_mono) simp_all
    then show "r / 100 * (real (length (sort a)) - 1) \<le> real (length (sort a)) - 1"
      by simp
  qed
  with x y show ?thesis by simp
qed


lemma calculate_var_defined:
  assumes "np_percentile returns ((1 - c) * 100) = Inr p"
    and "np_percentile returns 1 = Inr p1"
  shows "calculate_var returns c h = Inr \<lparr>var_95 = p * h, var_99 = p1 * h\<rparr>"
  using assms by (simp add: calculate_var_def Let_def)

lemma np_percentile_total:
  "a \<noteq> [] \<Longrightarrow> 0 \<le> q \<Longrightarrow> q \<le> 100 \<Longrightarrow> \<exists>p. np_percentile a q = Inr p"
  by (simp add: np_percentile_def)

text \<open>
  C1 (amended).  For a non-empty return series and a confidence level \<open>c\<close> in \<open>[0, 1]\<close>,
  \<open>calculate_var\<close> returns, and its \<open>var_95\<close> is the \<open>(1 - c) * 100\<close>-th empirical
  percentile of the returns multiplied by the holding period itself (not by its square
  root).  For a series whose 5th percentile is \<open>-0.032\<close> the 1-day value is \<open>-0.032\<close> and
  the 5-day value is \<open>-0.16\<close>.
\<close>

theorem calculate_var_scales_linearly:
  "(returns \<noteq> [] \<and> 0 \<le> c \<and> c \<le> 1 \<longrightarrow>
      (\<exists>p. np_percentile returns ((1 - c) * 100) = Inr p \<and>
           map_sum id var_95 (calculate_var returns c h) = Inr (p * h))) \<and>
   (np_percentile returns 5 = Inr (- 0.032) \<longrightarrow>
      map_sum id var_95 (calculate_var returns 0.95 1) = Inr (- 0.032) \<and>
      map_sum id var_95 (calculate_var returns 0.95 5) = Inr (- 0.16))"
proof (intro conjI impI)
  assume a: "returns \<noteq> [] \<and> 0 \<le> c \<and> c \<le> 1"
  then have q: "0 \<le> (1 - c) * 100" "(1 - c) * 100 \<le> 100"
    by simp_all
  from a q obtain p where p: "np_percentile returns ((1 - c) * 100) = Inr p"
    using np_percentile_total by blast
  from a obtain p1 where p1: "np_percentile returns 1 = Inr p1"
    using np_percentile_total [of returns 1] by auto
  from p p1 have "map_sum id var_95 (calculate_var returns c h) = Inr (p * h)"
    by (simp add: calculate_var_defined)
  with p show "\<exists>p. np_percentile returns ((1 - c) * 100) = Inr p \<and>
      map_sum id var_95 (calculate_var returns c h) = Inr (p * h)"
    by blast
next
  assume five: "np_percentile returns 5 = Inr (- 0.032)"
  then have ne: "returns \<noteq> []"
    by (auto simp: np_percentile_def)
  then obtain p1 where p1: "np_percentile returns 1 = Inr p1"
    using np_percentile_total [of returns 1] by auto
  have q: "(1 - 0.95) * 100 = (5::real)"
    by simp
  show "map_sum id var_95 (calculate_var returns 0.95 1) = Inr (- 0.032)"
    using five p1 by (simp add: calculate_var_def Let_def)
  show "map_sum id var_95 (calculate_var returns 0.95 5) = Inr (- 0.16)"
    using five p1 by (simp add: calculate_var_def Let_def)
qed

theorem calculate_var_scales_linearly_witness:
  "[- 0.032, - 0.032, 0.05] \<noteq> ([] :: real list) \<and> (0::real) \<le> 0.95 \<and> (0.95::real) \<le> 1 \<and>
   np_percentile [- 0.032, - 0.032, 0.05] 5 = Inr (- 0.032) \<and>
   map_sum id var_95 (calculate_var [- 0.032, - 0.032, 0.05] 0.95 1) = Inr (- 0.032) \<and>
   map_sum id var_95 (calculate_var [- 0.032, - 0.032, 0.05] 0.95 5) = Inr (- 0.16)"
proof -
  have five: "np_percentile [- 0.032, - 0.032, 0.05] 5 = Inr (- 0.032)"
    by (simp add: np_percentile_def interpolate_def)
  with calculate_var_scales_linearly [of "[- 0.032, - 0.032, 0.05]" "0.95" "5"]
  show ?thesis by simp
qed

theorem calculate_var_sqrt_counterexample:
  "np_percentile [- 0.032, - 0.032, 0.05] 5 = Inr (- 0.032) \<and>
   calculate_var [- 0.032, - 0.032, 0.05] 0.95 5 = Inr \<lparr>var_95 = - 0.16, var_99 = - 0.16\<rparr> \<and>
   (- 0.16 :: real) \<noteq> - 0.032 * sqrt 5"
proof -
  have "sqrt 5 \<noteq> 5"
  proof
    assume "sqrt 5 = 5"
    then have "(sqrt 5)\<^sup>2 = 5\<^sup>2" by simp
    then show False by simp
  qed
  then have "(- 0.16 :: real) \<noteq> - 0.032 * sqrt 5"
    by simp
  then show ?thesis
    by (simp add: calculate_var_def np_percentile_def interpolate_def)
qed

text \<open>
  C2 (amended).  For a non-empty return series, any holding period and a confidence level
  \<open>c\<close> with \<open>0 \<le> c \<le> 0.99\<close>, if the \<open>(1 - c) * 100\<close>-th percentile of the returns is not
  positive then \<open>calculate_var\<close> returns values with \<open>|var_99| \<ge> |var_95|\<close>.
\<close>

theorem calculate_var_99_dominates:
  assumes ne: "returns \<noteq> []" and c0: "0 \<le> c" and c1: "c \<le> 0.99"
    and p: "np_percentile returns ((1 - c) * 100) = Inr p" and loss: "p \<le> 0"
  shows "\<exists>r. calculate_var returns c h = Inr r \<and> \<bar>var_95 r\<bar> \<le> \<bar>var_99 r\<bar>"
proof -
  obtain p1 where p1: "np_percentile returns 1 = Inr p1"
    using np_percentile_total [of returns 1] ne by auto
  have "p1 \<le> p"
  proof (rule np_percentile_mono [OF ne _ _ _ p1 p])
    show "(0::real) \<le> 1" by simp
    show "1 \<le> (1 - c) * 100" using c1 by simp
    show "(1 - c) * 100 \<le> 100" using c0 by simp
  qed
  with loss have "\<bar>p\<bar> \<le> \<bar>p1\<bar>"
    by simp
  then have "\<bar>p\<bar> * \<bar>h\<bar> \<le> \<bar>p1\<bar> * \<bar>h\<bar>"
    by (intro mult_right_mono) simp_all
  then have "\<bar>p * h\<bar> \<le> \<bar>p1 * h\<bar>"
    by (simp add: abs_mult)
  then show ?thesis
    using calculate_var_defined [OF p p1, of h] by simp
qed

theorem calculate_var_99_dominates_witness:
  "\<exists>r. calculate_var [- 0.04, - 0.01, 0.02] 0.95 5 = Inr r \<and> \<bar>var_95 r\<bar> \<le> \<bar>var_99 r\<bar>"
proof (rule calculate_var_99_dominates)
  show "[- 0.04, - 0.01, 0.02] \<noteq> ([] :: real list)" by simp
  show "(0::real) \<le> 0.95" by simp
  show "(0.95::real) \<le> 0.99" by simp
  show "np_percentile [- 0.04, - 0.01, 0.02] ((1 - 0.95) * 100) = Inr (- 0.037)"
    by (simp add: np_percentile_def interpolate_def)
  show "(- 0.037 :: real) \<le> 0" by simp
qed

theorem calculate_var_99_counterexample:
  "calculate_var [0.01, 0.02] 0.95 1 = Inr \<lparr>var_95 = 0.0105, var_99 = 0.0101\<rparr> \<and>
   \<not> \<bar>0.0105 :: real\<bar> \<le> \<bar>0.0101\<bar>"
  by (simp add: calculate_var_def np_percentile_def interpolate_def)

section \<open>Concentration: properties\<close>


text \<open>
  C3.  A portfolio held entirely in one symbol, in two positions of 50 each: the dict of
  weights keeps one entry of weight 1/2, and the function returns a Herfindahl index of
  1/4 with bucket \<open>medium\<close>, where the sum of the squared position weights is 1/2, which
  is also \<open>1 / N\<close> for the two equal positions.  Every intermediate value here (100, 1/2,
  1/4, 3/4) is a binary fraction, so the program's floating-point run gives the same
  values.
\<close>

theorem calculate_concentration_risk_duplicate_symbol:
  "calculate_concentration_risk
     [\<lparr>symbol = ''AAA'', market_value = 50\<rparr>, \<lparr>symbol = ''AAA'', market_value = 50\<rparr>]
     = Inr \<lparr>concentration_risk = ''medium'', herfindahl_index = 1 / 4,
            top_position_weight = 1 / 2, diversification_score = 3 / 4\<rparr> \<and>
   herfindahl_spec
     [\<lparr>symbol = ''AAA'', market_value = 50\<rparr>, \<lparr>symbol = ''AAA'', market_value = 50\<rparr>] = 1 / 2 \<and>
   (1 / 4 :: real) \<noteq>
     1 / real (length [\<lparr>symbol = ''AAA'', market_value = 50\<rparr>, \<lparr>symbol = ''AAA'', market_value = 50\<rparr>])"
  by (simp add: calculate_concentration_risk_def portfolio_total_def py_div_def dict_values_def
      herfindahl_spec_def position_weight_def power2_eq_square)

section \<open>Degenerate denominators\<close>





section \<open>Volume anomalies: properties\<close>

lemma detect_volume_anomalies_result:
  assumes len: "2 \<le> length stock_data"
    and avg: "calculate_avg_volume stock_data 20 \<noteq> 0"
    and prev: "previous_close stock_data \<noteq> 0"
  shows "detect_volume_anomalies calculate_avg_volume stock_data =
     Inr (if d_less (Fin 3) (volume_ratio calculate_avg_volume stock_data) \<and>
             d_less (fl 0.05) (same_day_return stock_data)
          then [[(''type'', Str ''volume_surge_up''),
                 (''volume_ratio'', Flt (volume_ratio calculate_avg_volume stock_data)),
                 (''price_change'', Flt (same_day_return stock_data)),
                 (''strength'',
                    Str (if d_less (Fin 5) (volume_ratio calculate_avg_volume stock_data)
                         then ''strong'' else ''moderate''))]]
          else [])"
proof -
  from len have ne: "stock_data \<noteq> []"
    by auto
  show ?thesis
    using avg prev
    by (simp add: detect_volume_anomalies_def Let_def py_index_last [OF ne]
        py_index_second_last [OF len] py_truediv_def volume_ratio_def same_day_return_def
        previous_close_def del: d_quot.simps)
qed





text \<open>
  Rounding decides the strict threshold: a volume of \<open>3 * 2^53 + 1\<close> on an average of
  \<open>2^53\<close> is more than three times the average, but the computed ratio is \<open>3.0\<close> and
  nothing is emitted.
\<close>

lemma detect_volume_anomalies_rounded_ratio:
  "detect_volume_anomalies (\<lambda>sd n. 2 ^ 53)
     [\<lparr>close = 1, volume = 1\<rparr>, \<lparr>close = 2, volume = 3 * 2 ^ 53 + 1\<rparr>] = Inr []"
proof -
  let ?sd = "[\<lparr>close = 1, volume = 1\<rparr>, \<lparr>close = 2, volume = 3 * 2 ^ 53 + 1\<rparr>]"
  have "volume_ratio (\<lambda>sd n. 2 ^ 53) ?sd = Fin 3"
    using fl_volume_rounds by (simp add: volume_ratio_def fl_3)
  then show ?thesis
    using detect_volume_anomalies_result [of ?sd "\<lambda>sd n. 2 ^ 53"]
    by (simp add: previous_close_def)
qed


section \<open>Risk alerts: properties\<close>

lemma default_rule_lookup:
  "py_getitem load_default_rules ''price_drop_alert'' =
     Inr \<lparr>threshold = - 0.15, timeframe = Some ''daily'', baseline_window = None,
          priority = ''high''\<rparr>"
  "py_getitem load_default_rules ''volatility_spike'' =
     Inr \<lparr>threshold = 3.0, timeframe = None, baseline_window = Some 20,
          priority = ''medium''\<rparr>"
  by (simp_all add: py_getitem_def load_default_rules_def)

lemma check_risk_alerts_default:
  "check_risk_alerts load_default_rules calculate_price_change calculate_current_volatility
     calculate_average_volatility asset_data portfolio_data =
   (let price_change = calculate_price_change asset_data;
        current_vol = calculate_current_volatility asset_data;
        avg_vol = calculate_average_volatility asset_data 20;
        alerts = (if price_change \<le> - 0.15
                  then [[(''type'', Str ''price_drop''), (''severity'', Str ''high''),
                         (''message'', Formatted \<bar>price_change\<bar>),
                         (''suggestion'', Fixed_text)]]
                  else [])
    in if current_vol > avg_vol * 3
       then (if avg_vol = 0 then Inl ZeroDivisionError
             else Inr (alerts @
                       [[(''type'', Str ''volatility_spike''), (''severity'', Str ''medium''),
                         (''message'', Formatted (current_vol / avg_vol)),
                         (''suggestion'', Fixed_text)]]))
       else Inr alerts)"
  by (simp add: check_risk_alerts_def default_rule_lookup Let_def py_div_def)

text \<open>
  C6.  Under the default rule set, at a day-over-day return of \<open>-0.20\<close>, a current
  volatility of \<open>0.1\<close> and a 20-day baseline average of \<open>0\<close>, the return is at most
  \<open>-0.15\<close> and the volatility exceeds three times the baseline, yet the evaluation
  raises \<open>ZeroDivisionError\<close> while it formats the volatility message: neither the
  \<open>price_drop\<close> nor the \<open>volatility_spike\<close> alert is emitted.  The two comparisons
  come out the same in floating point, and the division by the zero baseline raises
  there too.
\<close>

theorem check_risk_alerts_zero_baseline_raises:
  "fst (- 0.20 :: real, 0.1 :: real, 0 :: real) \<le> - 0.15 \<and>
   fst (snd (- 0.20 :: real, 0.1 :: real, 0 :: real))
     > 3 * snd (snd (- 0.20 :: real, 0.1 :: real, 0 :: real)) \<and>
   check_risk_alerts load_default_rules fst (\<lambda>a. fst (snd a)) (\<lambda>a n. snd (snd a))
     (- 0.20, 0.1, 0) () = Inl ZeroDivisionError \<and>
   \<not> emits ''price_drop''
     (check_risk_alerts load_default_rules fst (\<lambda>a. fst (snd a)) (\<lambda>a n. snd (snd a))
        (- 0.20, 0.1, 0) ()) \<and>
   \<not> emits ''volatility_spike''
     (check_risk_alerts load_default_rules fst (\<lambda>a. fst (snd a)) (\<lambda>a n. snd (snd a))
        (- 0.20, 0.1, 0) ())"
  by (simp add: check_risk_alerts_default Let_def emits_simps)


section \<open>Oversold and overbought: properties\<close>

lemma detect_oversold_bounce_iff:
  "stock_data \<noteq> [] \<Longrightarrow>
   emits ''oversold_bounce''
     (detect_oversold_overbought_opportunities calculate_rsi calculate_bollinger_bands
        calculate_potential_upside stock_data) \<longleftrightarrow>
   calculate_rsi stock_data 14 < 30 \<and>
   close (last stock_data) \<le> lower_band (calculate_bollinger_bands stock_data 20 2)"
  by (simp add: detect_oversold_overbought_opportunities_def Let_def py_index_last
      emits_simps has_entry_def)

lemma detect_oversold_overbought_never_overbought:
  "\<not> emits ''overbought_pullback''
     (detect_oversold_overbought_opportunities calculate_rsi calculate_bollinger_bands
        calculate_potential_upside stock_data)"
  by (cases "py_index stock_data (- 1)")
    (simp_all add: detect_oversold_overbought_opportunities_def Let_def emits_simps
      has_entry_def)

text \<open>
  C7.  At an RSI of 80 with the latest close 110 above the upper band 105, the detector
  returns the empty list: no \<open>overbought_pullback\<close> opportunity is emitted.
\<close>

theorem detect_oversold_overbought_no_pullback:
  "detect_oversold_overbought_opportunities (\<lambda>sd n. 80)
     (\<lambda>sd n k. \<lparr>upper_band = 105, lower_band = 95\<rparr>) (\<lambda>sd. 0)
     [\<lparr>close = 100, volume = 1000\<rparr>, \<lparr>close = 110, volume = 1200\<rparr>] = Inr [] \<and>
   \<not> emits ''overbought_pullback''
     (detect_oversold_overbought_opportunities (\<lambda>sd n. 80)
        (\<lambda>sd n k. \<lparr>upper_band = 105, lower_band = 95\<rparr>) (\<lambda>sd. 0)
        [\<lparr>close = 100, volume = 1000\<rparr>, \<lparr>close = 110, volume = 1200\<rparr>])"
  by (simp add: detect_oversold_overbought_opportunities_def py_index_def emits_simps)

section \<open>Option volatility: properties\<close>

lemma detect_option_volatility_undervalued_iff:
  "emits ''iv_undervalued''
     (detect_option_volatility_opportunities calculate_iv_skew
        calculate_historical_volatility calculate_average_iv underlying_stock option_chain)
   \<longleftrightarrow>
   calculate_average_iv option_chain
     < calculate_historical_volatility underlying_stock 30 * 0.8 \<and>
   calculate_historical_volatility underlying_stock 30 \<noteq> 0"
  by (simp add: detect_option_volatility_opportunities_def Let_def py_div_def emits_simps
      has_entry_def)

lemma detect_option_volatility_never_overvalued:
  "\<not> emits ''iv_overvalued''
     (detect_option_volatility_opportunities calculate_iv_skew
        calculate_historical_volatility calculate_average_iv underlying_stock option_chain)"
  by (simp add: detect_option_volatility_opportunities_def Let_def py_div_def emits_simps
      has_entry_def)

text \<open>
  C8.  With an average implied volatility of 0.6 against a 30-day historical volatility of
  0.2, the detector returns the empty list: no \<open>iv_overvalued\<close> opportunity is emitted.
\<close>

theorem detect_option_volatility_no_overvalued:
  "detect_option_volatility_opportunities (\<lambda>chain. 0) (\<lambda>stock n. 0.2)
     (\<lambda>chain. sum_list chain / real (length chain)) ''XYZ'' [0.5, 0.7 :: real] = Inr [] \<and>
   \<not> emits ''iv_overvalued''
     (detect_option_volatility_opportunities (\<lambda>chain. 0) (\<lambda>stock n. 0.2)
        (\<lambda>chain. sum_list chain / real (length chain)) ''XYZ'' [0.5, 0.7 :: real])"
  by (simp add: detect_option_volatility_opportunities_def emits_simps)

section \<open>Frontend: properties\<close>









text \<open>
  The sum can overflow: two prices of \<open>2^1023\<close> have the mean \<open>2^1023\<close>, but their sum
  rounds to infinity and so does the statistic.
\<close>

lemma calculatePortfolioStats_overflow:
  "totalValue (calculatePortfolioStats
     [\<lparr>asset_symbol = ''A'', asset_name = ''A'', current_price = Fin (2 ^ 1023),
       change = Fin 0, change_percent = Fin 0\<rparr>,
      \<lparr>asset_symbol = ''B'', asset_name = ''B'', current_price = Fin (2 ^ 1023),
       change = Fin 0, change_percent = Fin 0\<rparr>]) = PInf"
  using fl_2_1023 fl_2_1024
  by (simp add: calculatePortfolioStats_def reduce_sum_def Let_def)

end
